theory Spec2Isabelle
  imports Complex_Main "HOL-Library.Word" "HOL-Library.Signed_Division" "HOL-Library.Sublist"
begin

unbundle bit_operations_syntax

section \<open>Go strings and regular expressions\<close>

text \<open>
  A Go string is a sequence of bytes, modelled as \<^typ>\<open>string\<close> (a list of 8-bit
  characters). The spider compiles three patterns with \<^verbatim>\<open>regexp.MustCompile\<close>.
  Package regexp returns the leftmost match and, among the matches starting there, the
  one a backtracking search finds first. The matcher below is that backtracking search:
  it lists the positions at which a pattern can end, in the order of preference.

  Every byte that one of the three patterns names explicitly is ASCII, and an ASCII byte
  is never part of a longer UTF-8 sequence, so matching byte by byte selects the same
  substring as Go's rune by rune matching.
\<close>

type_synonym ranges = "(char \<times> char) list"

definition in_class :: "ranges \<Rightarrow> char \<Rightarrow> bool" where
  "in_class rs c =
     list_ex (\<lambda>(lo, hi). (of_char lo :: nat) \<le> of_char c \<and> (of_char c :: nat) \<le> of_char hi) rs"

datatype re =
    Lit string                 \<comment> \<open>a literal string\<close>
  | Cls ranges                 \<comment> \<open>\<^verbatim>\<open>[...]\<close>\<close>
  | NCls ranges                \<comment> \<open>\<^verbatim>\<open>[^...]\<close>\<close>
  | Seq re re                  \<comment> \<open>concatenation\<close>
  | Alt re re                  \<comment> \<open>\<^verbatim>\<open>x|y\<close>, preferring \<^verbatim>\<open>x\<close>\<close>
  | Star re                    \<comment> \<open>\<^verbatim>\<open>x*\<close>, preferring more\<close>
  | Opt re                     \<comment> \<open>\<^verbatim>\<open>x?\<close>, preferring one\<close>
  | Rep re nat nat             \<comment> \<open>\<^verbatim>\<open>x{n,m}\<close>, preferring more\<close>
  | Bol                        \<comment> \<open>\<^verbatim>\<open>^\<close>: at the beginning of the text\<close>
  | Eol                        \<comment> \<open>\<^verbatim>\<open>$\<close>: at the end of the text\<close>
  | Grp "string option" re     \<comment> \<open>\<^verbatim>\<open>(x)\<close>, \<^verbatim>\<open>(?:x)\<close> and \<^verbatim>\<open>(?P<name>x)\<close>\<close>

text \<open>\<^verbatim>\<open>x+\<close> is one \<^verbatim>\<open>x\<close> followed by \<^verbatim>\<open>x*\<close>.\<close>

definition Plus :: "re \<Rightarrow> re" where
  "Plus r = Seq r (Star r)"

fun alts :: "re list \<Rightarrow> re" where
  "alts [] = Cls []"
| "alts [r] = r"
| "alts (r # rs) = Alt r (alts rs)"

text \<open>
  A position is the text that remains together with a flag telling whether the position
  is the beginning of the whole text.
\<close>

type_synonym pos = "bool \<times> string"

fun rsize :: "re \<Rightarrow> nat" where
  "rsize (Seq a b) = Suc (rsize a + rsize b)"
| "rsize (Alt a b) = Suc (rsize a + rsize b)"
| "rsize (Star r) = Suc (rsize r)"
| "rsize (Opt r) = Suc (rsize r)"
| "rsize (Rep r lo hi) = Suc (rsize r + hi)"
| "rsize (Grp n r) = Suc (rsize r)"
| "rsize _ = 0"

function ms :: "re \<Rightarrow> pos \<Rightarrow> pos list" where
  "ms (Lit w) p =
     (if prefix w (snd p) then [(fst p \<and> w = [], drop (length w) (snd p))] else [])"
| "ms (Cls rs) p =
     (case snd p of [] \<Rightarrow> [] | c # t \<Rightarrow> if in_class rs c then [(False, t)] else [])"
| "ms (NCls rs) p =
     (case snd p of [] \<Rightarrow> [] | c # t \<Rightarrow> if in_class rs c then [] else [(False, t)])"
| "ms (Seq a b) p = concat (map (ms b) (ms a p))"
| "ms (Alt a b) p = ms a p @ ms b p"
| "ms (Star r) p =
     concat (map (ms (Star r)) (filter (\<lambda>q. length (snd q) < length (snd p)) (ms r p))) @ [p]"
| "ms (Opt r) p = ms r p @ [p]"
| "ms (Rep r lo 0) p = [p]"
| "ms (Rep r lo (Suc hi)) p =
     concat (map (ms (Rep r (lo - 1) hi)) (ms r p)) @ (if lo = 0 then [p] else [])"
| "ms Bol p = (if fst p then [p] else [])"
| "ms Eol p = (if snd p = [] then [p] else [])"
| "ms (Grp n r) p = ms r p"
  by pat_completeness auto
termination
  by (relation "measures [\<lambda>(r, p). rsize r, \<lambda>(r, p). length (snd p)]") auto

text \<open>
  The leftmost match: try the pattern at the current position and, when it fails there,
  one byte further on. The result is the matched text (\<^verbatim>\<open>FindString\<close>, and
  element \<^verbatim>\<open>[0][0]\<close> of \<^verbatim>\<open>FindAllStringSubmatch\<close>).
\<close>

fun find_from :: "re \<Rightarrow> bool \<Rightarrow> string \<Rightarrow> string option" where
  "find_from r b [] =
     (case ms r (b, []) of q # _ \<Rightarrow> Some [] | [] \<Rightarrow> None)"
| "find_from r b (c # t) =
     (case ms r (b, c # t) of
        q # _ \<Rightarrow> Some (take (length (c # t) - length (snd q)) (c # t))
      | [] \<Rightarrow> find_from r False t)"

definition FindString :: "re \<Rightarrow> string \<Rightarrow> string option" where
  "FindString r s = find_from r True s"

definition MatchString :: "re \<Rightarrow> string \<Rightarrow> bool" where
  "MatchString r s = (FindString r s \<noteq> None)"


section \<open>Data of the spider\<close>

datatype error =
    IndexOutOfRange     \<comment> \<open>run-time panic: index out of range\<close>
  | DivideByZero        \<comment> \<open>run-time panic: integer divide by zero\<close>
  | Fatal               \<comment> \<open>\<^verbatim>\<open>log.Fatalln\<close>: the process exits\<close>

text \<open>
  \<^verbatim>\<open>common.WebPage\<close>. The fingerprint set of a page is listed without an order of
  its own: Go ranges over a map in an unspecified order.
\<close>

record WebPage =
  Time :: int
  Url :: string
  Status :: string
  Body :: string
  Fingerprints :: "nat list"

datatype http_result =
    GetError                          \<comment> \<open>\<^verbatim>\<open>http.Get\<close> returned an error\<close>
  | Response string "string option"   \<comment> \<open>status line, and the body unless reading it failed\<close>

text \<open>
  What the spider takes from outside the files modelled here: the network, the clock, the
  file system's failures, the standard library's URL parser, and the methods of package
  \<^verbatim>\<open>common\<close> whose code is not part of the sources.
\<close>

record env =
  urlParseHost :: "string \<Rightarrow> string option"
    \<comment> \<open>\<^verbatim>\<open>url.Parse(u)\<close>: the \<^verbatim>\<open>Host\<close> field, or an error\<close>
  wordpressProbe :: "string \<Rightarrow> bool"
    \<comment> \<open>the answer of \<^verbatim>\<open>isWordPressWebsite\<close>: from its cache or from probing the host\<close>
  httpGet :: "string \<Rightarrow> http_result"
  unixNow :: int
  statFails :: "string \<Rightarrow> bool"
  createFails :: "string \<Rightarrow> bool"
  writeFails :: "string \<Rightarrow> bool"
  GenerateFingerprints :: "string \<Rightarrow> nat list"
    \<comment> \<open>the fingerprints \<^verbatim>\<open>common.NewWebPage\<close> computes from a body\<close>
  FindAllAnchorHREFs :: "string \<Rightarrow> 64 word \<Rightarrow> string list"
  Serialize :: "WebPage \<Rightarrow> string"

record SearchHouseSpider =
  numRoutines :: "64 word"
  workingDirectory :: string
  maxLinksPerPage :: "64 word"

section \<open>URL validation\<close>

definition one :: "char \<Rightarrow> char \<times> char" where
  "one c = (c, c)"

definition hostClass :: ranges where
  \<comment> \<open>\<^verbatim>\<open>[-a-zA-Z0-9@:%._+~#=]\<close>\<close>
  "hostClass = [one CHR ''-'', (CHR ''a'', CHR ''z''), (CHR ''A'', CHR ''Z''), (CHR ''0'', CHR ''9''),
     one CHR ''@'', one CHR '':'', one CHR ''%'', one CHR ''.'', one CHR ''_'', one CHR ''+'',
     one CHR ''~'', one CHR ''#'', one CHR ''='']"

definition tldClass :: ranges where
  \<comment> \<open>\<^verbatim>\<open>[a-zA-Z0-9()]\<close>\<close>
  "tldClass = [(CHR ''a'', CHR ''z''), (CHR ''A'', CHR ''Z''), (CHR ''0'', CHR ''9''),
     one CHR ''('', one CHR '')'']"

definition resourceClass :: ranges where
  \<comment> \<open>\<^verbatim>\<open>[-a-zA-Z0-9()@:_+~?=/]\<close>\<close>
  "resourceClass = [one CHR ''-'', (CHR ''a'', CHR ''z''), (CHR ''A'', CHR ''Z''), (CHR ''0'', CHR ''9''),
     one CHR ''('', one CHR '')'', one CHR ''@'', one CHR '':'', one CHR ''_'', one CHR ''+'',
     one CHR ''~'', one CHR ''?'', one CHR ''='', one CHR ''/'']"

definition urlRe :: re where
  \<comment> \<open>\<^verbatim>\<open>^(https://[-a-zA-Z0-9@:%._+~#=]{1,256}\.[a-zA-Z0-9()]{1,6}[-a-zA-Z0-9()@:_+~?=/]*)$\<close>\<close>
  "urlRe =
     Seq Bol (Seq
       (Grp None (Seq (Lit ''https://'') (Seq (Rep (Cls hostClass) 1 256) (Seq (Lit ''.'')
          (Seq (Rep (Cls tldClass) 1 6) (Star (Cls resourceClass)))))))
       Eol)"

definition urlRe_legacy :: re where
  \<comment> \<open>\<^verbatim>\<open>^(?P<scheme>https://)(?P<hostname>[-a-zA-Z0-9@:%._+~#=]{1,256}\.[a-zA-Z0-9()]{1,6})(?P<resource>[-a-zA-Z0-9()@:_+~?=/]*)$\<close>\<close>
  "urlRe_legacy =
     Seq Bol (Seq (Grp (Some ''scheme'') (Lit ''https://''))
       (Seq (Grp (Some ''hostname'')
              (Seq (Rep (Cls hostClass) 1 256) (Seq (Lit ''.'') (Rep (Cls tldClass) 1 6))))
         (Seq (Grp (Some ''resource'') (Star (Cls resourceClass))) Eol)))"

text \<open>
  The alternatives of the extension pattern, in the order of the source. \<^verbatim>\<open>.\<close> matches
  every character but a newline.
\<close>

definition extAlternatives :: "re list" where
  "extAlternatives =
     [Lit ''css'', Lit ''js'', Lit ''bmp'', Lit ''gif'',
      Seq (Lit ''jp'') (Seq (Opt (Lit ''e'')) (Lit ''g'')),
      Lit ''ico'', Lit ''png'',
      Seq (Lit ''tif'') (Opt (Lit ''f'')),
      Lit ''mid'', Lit ''mp2'', Lit ''mp3'', Lit ''mp4'', Lit ''ppsx'', Lit ''wav'', Lit ''avi'',
      Lit ''mov'', Lit ''mpeg'', Lit ''ram'', Lit ''m4v'', Lit ''mkv'', Lit ''ogg'', Lit ''ogv'',
      Lit ''pdf'', Lit ''odc'', Lit ''sas'', Lit ''ps'', Lit ''eps'', Lit ''tex'', Lit ''ppt'',
      Lit ''pptx'', Lit ''doc'', Lit ''docx'', Lit ''xls'', Lit ''xlsx'', Lit ''names'',
      Lit ''data'', Lit ''dat'', Lit ''exe'', Lit ''bz2'', Lit ''tar'', Lit ''msi'', Lit ''bin'',
      Lit ''7z'', Lit ''psd'', Lit ''dmg'', Lit ''iso'', Lit ''epub'', Lit ''dll'', Lit ''cnf'',
      Lit ''tgz'', Lit ''sha1'', Lit ''ss'', Lit ''scm'', Lit ''py'', Lit ''rkt'', Lit ''r'',
      Lit ''c'', Lit ''thmx'', Lit ''mso'', Lit ''arff'', Lit ''rtf'', Lit ''jar'', Lit ''csv'',
      Lit ''java'', Lit ''txt'', Lit ''rm'', Lit ''smil'', Lit ''wmv'', Lit ''swf'', Lit ''wma'',
      Lit ''zip'', Lit ''rar'', Lit ''gz'']"

definition extRe :: re where
  \<comment> \<open>\<^verbatim>\<open>.*\.(?:css|js|...|rar|gz)$\<close>\<close>
  "extRe =
     Seq (Star (NCls [one (CHR 0x0A)]))
       (Seq (Lit ''.'') (Seq (Grp None (alts extAlternatives)) Eol))"

text \<open>
  \<^verbatim>\<open>strings.ToLower\<close> maps the ASCII capitals to small letters. On a string with a
  byte outside ASCII Go also maps the capitals of other scripts; \<^verbatim>\<open>urlValid\<close> lowers a
  URL only after \<^verbatim>\<open>urlRe\<close> has matched it, and then every byte of it is ASCII.
\<close>

definition lower :: "char \<Rightarrow> char" where
  "lower c =
     (if (of_char CHR ''A'' :: nat) \<le> of_char c \<and> (of_char c :: nat) \<le> of_char CHR ''Z''
      then char_of (of_char c + (32 :: nat)) else c)"

definition ToLower :: "string \<Rightarrow> string" where
  "ToLower s = map lower s"

definition getHostname :: "env \<Rightarrow> string \<Rightarrow> string" where
  "getHostname e u = (case urlParseHost e u of None \<Rightarrow> [] | Some host \<Rightarrow> host)"


definition isWordPressWebsite :: "env \<Rightarrow> string \<Rightarrow> bool" where
  "isWordPressWebsite e str = wordpressProbe e str"

definition urlValid :: "env \<Rightarrow> string \<Rightarrow> bool" where
  "urlValid e url =
     (if MatchString urlRe url \<and> \<not> MatchString extRe (ToLower url)
      then isWordPressWebsite e (getHostname e url)
      else False)"

text \<open>The copy of \<^verbatim>\<open>urlValid\<close> in the older version of the spider.\<close>

definition urlValid_legacy :: "env \<Rightarrow> string \<Rightarrow> bool" where
  "urlValid_legacy e url =
     (if MatchString urlRe_legacy url \<and> \<not> MatchString extRe (ToLower url)
      then (if isWordPressWebsite e (getHostname e url) then True else False)
      else False)"

section \<open>Host names and link discovery\<close>

definition hostDelims :: ranges where
  \<comment> \<open>\<^verbatim>\<open>\s:/@\<close>, where \<^verbatim>\<open>\s\<close> is tab, newline, form feed, carriage return and space\<close>
  "hostDelims = [(CHR 0x09, CHR 0x0A), (CHR 0x0C, CHR 0x0D), one CHR '' '',
     one CHR '':'', one CHR ''/'', one CHR ''@'']"

definition domainRe :: re where
  \<comment> \<open>\<^verbatim>\<open>https://[^\s:/@]+\.[^\s:/@]+\<close>\<close>
  "domainRe =
     Seq (Lit ''https://'') (Seq (Plus (NCls hostDelims)) (Seq (Lit ''.'') (Plus (NCls hostDelims))))"



definition findHostName :: "string \<Rightarrow> string" where
  "findHostName url = (case FindString domainRe url of None \<Rightarrow> [] | Some m \<Rightarrow> m)"

text \<open>
  \<^verbatim>\<open>StringSet\<close>: the keys of a Go map, kept here in the order of insertion. (Go ranges
  over them in an unspecified order.)
\<close>

type_synonym StringSet = "string list"

definition Add :: "StringSet \<Rightarrow> string \<Rightarrow> StringSet" where
  "Add s str = (if str \<in> set s then s else s @ [str])"

definition TrimSuffix :: "string \<Rightarrow> string \<Rightarrow> string" where
  "TrimSuffix s suf = (if suffix suf s then take (length s - length suf) s else s)"

text \<open>
  The loop of \<^verbatim>\<open>constructProperURLs\<close>. \<^verbatim>\<open>urlStr[0]\<close> panics on the empty string.
\<close>

fun constructLoop :: "env \<Rightarrow> string \<Rightarrow> string list \<Rightarrow> StringSet \<Rightarrow> error + StringSet" where
  "constructLoop e hostName [] properURLs = Inr properURLs"
| "constructLoop e hostName (urlStr # urls) properURLs =
     (case urlStr of
        [] \<Rightarrow> Inl IndexOutOfRange
      | c # _ \<Rightarrow>
          (let parsedURL = (if c = CHR ''/'' then hostName @ urlStr else TrimSuffix urlStr ''/'')
           in constructLoop e hostName urls
                (if urlValid e parsedURL then Add properURLs parsedURL else properURLs)))"

definition constructProperURLs :: "env \<Rightarrow> string list \<Rightarrow> string \<Rightarrow> error + StringSet" where
  "constructProperURLs e urls rootUrl =
     (let hostName = findHostName rootUrl
      in if hostName = [] then Inr [] else constructLoop e hostName urls [])"

section \<open>Hashing and the shard of a URL\<close>

text \<open>
  \<^verbatim>\<open>hash/fnv\<close>, 64-bit FNV-1a: start from the offset basis; for every byte, exclusive-or
  it into the low bits and multiply by the prime, modulo \<open>2 ^ 64\<close>.
\<close>

definition offset64 :: "64 word" where
  "offset64 = 14695981039346656037"

definition prime64 :: "64 word" where
  "prime64 = 1099511628211"

definition New64a :: "64 word" where
  "New64a = offset64"

definition Write :: "64 word \<Rightarrow> string \<Rightarrow> 64 word" where
  "Write h bs = foldl (\<lambda>h c. (h XOR of_char c) * prime64) h bs"

definition Sum64 :: "64 word \<Rightarrow> 64 word" where
  "Sum64 h = h"

definition hash :: "string \<Rightarrow> 64 word" where
  "hash str = Sum64 (Write New64a str)"

text \<open>
  Go's \<^verbatim>\<open>int\<close> is a 64-bit two's complement integer here: \<^verbatim>\<open>int(x)\<close> keeps the
  bits of a \<^verbatim>\<open>uint64\<close>, negation wraps around, and \<^verbatim>\<open>%\<close> truncates towards
  zero (the remainder has the sign of the dividend) and panics on a zero divisor.
\<close>

definition abs_go :: "64 word \<Rightarrow> 64 word" where
  "abs_go val = (if val <s 0 then - val else val)"

definition rem_go :: "64 word \<Rightarrow> 64 word \<Rightarrow> error + 64 word" where
  "rem_go a b = (if b = 0 then Inl DivideByZero else Inr (word_of_int (sint a smod sint b)))"

definition calcWebsiteToRoutineNum :: "SearchHouseSpider \<Rightarrow> string \<Rightarrow> error + 64 word" where
  "calcWebsiteToRoutineNum s url =
     (let hostname = findHostName url;
          hash = abs_go (hash hostname)
      in rem_go hash (numRoutines s))"

section \<open>Page validation\<close>

text \<open>
  \<^verbatim>\<open>strings.TrimLeftFunc(body, unicode.IsSpace)\<close> removes the leading characters that
  are white space. A character is decoded from its UTF-8 bytes; \<^verbatim>\<open>unicode.IsSpace\<close>
  holds for U+0009 to U+000D, U+0020, U+0085, U+00A0, U+1680, U+2000 to U+200A, U+2028,
  U+2029, U+202F, U+205F and U+3000. Their encodings are listed here; any other byte
  sequence, also one that is not valid UTF-8, stops the trimming.
\<close>

definition spaceRunes :: "string list" where
  "spaceRunes =
     [[CHR 0x09], [CHR 0x0A], [CHR 0x0B], [CHR 0x0C], [CHR 0x0D], [CHR 0x20],
      [CHR 0xC2, CHR 0x85], [CHR 0xC2, CHR 0xA0],
      [CHR 0xE1, CHR 0x9A, CHR 0x80],
      [CHR 0xE2, CHR 0x80, CHR 0x80], [CHR 0xE2, CHR 0x80, CHR 0x81],
      [CHR 0xE2, CHR 0x80, CHR 0x82], [CHR 0xE2, CHR 0x80, CHR 0x83],
      [CHR 0xE2, CHR 0x80, CHR 0x84], [CHR 0xE2, CHR 0x80, CHR 0x85],
      [CHR 0xE2, CHR 0x80, CHR 0x86], [CHR 0xE2, CHR 0x80, CHR 0x87],
      [CHR 0xE2, CHR 0x80, CHR 0x88], [CHR 0xE2, CHR 0x80, CHR 0x89],
      [CHR 0xE2, CHR 0x80, CHR 0x8A],
      [CHR 0xE2, CHR 0x80, CHR 0xA8], [CHR 0xE2, CHR 0x80, CHR 0xA9],
      [CHR 0xE2, CHR 0x80, CHR 0xAF],
      [CHR 0xE2, CHR 0x81, CHR 0x9F],
      [CHR 0xE3, CHR 0x80, CHR 0x80]]"

definition leadingSpace :: "string \<Rightarrow> string option" where
  "leadingSpace s = find (\<lambda>w. w \<noteq> [] \<and> prefix w s) spaceRunes"

function TrimLeftSpace :: "string \<Rightarrow> string" where
  "TrimLeftSpace s =
     (case leadingSpace s of None \<Rightarrow> s | Some w \<Rightarrow> TrimLeftSpace (drop (length w) s))"
  by pat_completeness auto
termination
  by (relation "measure length")
     (auto simp: leadingSpace_def find_Some_iff prefix_def)

declare TrimLeftSpace.simps [simp del]

definition HasPrefix :: "string \<Rightarrow> string \<Rightarrow> bool" where
  "HasPrefix s p = prefix p s"

definition validPage :: "WebPage \<Rightarrow> bool" where
  "validPage wp =
     (let trimmedBody = TrimLeftSpace (Body wp)
      in HasPrefix trimmedBody ''<!DOCTYPE html'' \<or> HasPrefix trimmedBody ''<!doctype html'')"

section \<open>The fingerprint index and the near-duplicate check\<close>

text \<open>
  \<^verbatim>\<open>common.Fingerprints\<close>: \<^verbatim>\<open>GetFingerprintsAsSet\<close> gives a map from a fingerprint to
  the pages that produced it.
\<close>

type_synonym FingerprintIndex = "nat \<rightharpoonup> WebPage list"

definition NewFingerprints :: FingerprintIndex where
  "NewFingerprints = Map.empty"

text \<open>
  Modelled from the spec: \<^verbatim>\<open>InsertFingerprintsUsingWebpage\<close> of package
  \<^verbatim>\<open>common\<close>, whose code is not part of the sources. It inserts every fingerprint of
  the page into the index, each pointing back to the page.
\<close>

definition InsertFingerprintsUsingWebpage :: "FingerprintIndex \<Rightarrow> WebPage \<Rightarrow> FingerprintIndex" where
  "InsertFingerprintsUsingWebpage fp page =
     foldl (\<lambda>m h. m(h \<mapsto> (case m h of None \<Rightarrow> [page] | Some ps \<Rightarrow> ps @ [page])))
       fp (Fingerprints page)"

text \<open>
  Modelled from the spec: \<^verbatim>\<open>Similarity\<close> of \<^verbatim>\<open>common.WebPage\<close>, whose code is not
  part of the sources. It is the Jaccard index of the two fingerprint sets, the size of
  the intersection over the size of the union (and 0 for two empty sets). The quotient is
  exact here; for sets of at most 10000 fingerprints a 64-bit float compares with 0.9 the
  same way.
\<close>

definition Similarity :: "WebPage \<Rightarrow> WebPage \<Rightarrow> rat" where
  "Similarity a b =
     (let A = set (Fingerprints a); B = set (Fingerprints b)
      in if A \<union> B = {} then 0 else of_nat (card (A \<inter> B)) / of_nat (card (A \<union> B)))"

text \<open>The two loops of \<^verbatim>\<open>duplicateExists\<close>; each returns at the first match.\<close>

fun pagesLoop :: "WebPage \<Rightarrow> WebPage list \<Rightarrow> bool" where
  "pagesLoop wp [] = False"
| "pagesLoop wp (page # pages) =
     (if Url page \<noteq> Url wp \<and> Similarity wp page > 9 / 10 then True else pagesLoop wp pages)"

fun hashLoop :: "FingerprintIndex \<Rightarrow> WebPage \<Rightarrow> nat list \<Rightarrow> bool" where
  "hashLoop fpGlobalSet wp [] = False"
| "hashLoop fpGlobalSet wp (h # hs) =
     (case fpGlobalSet h of
        Some pages \<Rightarrow> if pagesLoop wp pages then True else hashLoop fpGlobalSet wp hs
      | None \<Rightarrow> hashLoop fpGlobalSet wp hs)"

definition duplicateExists :: "FingerprintIndex \<Rightarrow> WebPage \<Rightarrow> bool" where
  "duplicateExists fp wp = hashLoop fp wp (Fingerprints wp)"

text \<open>
  The index after the pages of a list have been admitted in this order, and the pages
  that an index holds under a fingerprint.
\<close>

definition admitAll :: "WebPage list \<Rightarrow> FingerprintIndex" where
  "admitAll pages = foldl InsertFingerprintsUsingWebpage NewFingerprints pages"

definition pagesAt :: "FingerprintIndex \<Rightarrow> nat \<Rightarrow> WebPage set" where
  "pagesAt fp h = (case fp h of None \<Rightarrow> {} | Some ps \<Rightarrow> set ps)"

section \<open>The page store\<close>

text \<open>\<^verbatim>\<open>strconv.FormatUint(x, 10)\<close>: the decimal digits, most significant first.\<close>

definition digit :: "int \<Rightarrow> char" where
  "digit d = char_of (of_char CHR ''0'' + d)"

function decimal :: "int \<Rightarrow> string" where
  "decimal n = (if n < 10 then [digit n] else decimal (n div 10) @ [digit (n mod 10)])"
  by pat_completeness auto
termination
  by (relation "measure nat") auto

declare decimal.simps [simp del]

definition FormatUint :: "64 word \<Rightarrow> string" where
  "FormatUint x = decimal (uint x)"

text \<open>
  \<^verbatim>\<open>filepath.Join\<close> on a system whose separator is \<^verbatim>\<open>/\<close>: the elements from the first
  non-empty one on are joined by separators and the result is cleaned. \<^verbatim>\<open>Clean\<close> drops
  empty and \<^verbatim>\<open>.\<close> elements, lets \<^verbatim>\<open>..\<close> cancel the element before it, drops
  \<^verbatim>\<open>..\<close> at the root, and turns the empty result into \<^verbatim>\<open>.\<close>.
\<close>

fun splitSep :: "string \<Rightarrow> string list" where
  "splitSep [] = [[]]"
| "splitSep (c # cs) =
     (if c = CHR ''/'' then [] # splitSep cs
      else (case splitSep cs of [] \<Rightarrow> [[c]] | x # xs \<Rightarrow> (c # x) # xs))"

fun joinSep :: "string list \<Rightarrow> string" where
  "joinSep [] = []"
| "joinSep [x] = x"
| "joinSep (x # xs) = x @ CHR ''/'' # joinSep xs"

definition cleanStep :: "bool \<Rightarrow> string list \<Rightarrow> string \<Rightarrow> string list" where
  "cleanStep rooted stack elt =
     (if elt = [] \<or> elt = ''.'' then stack
      else if elt = ''..'' then
        (if stack \<noteq> [] \<and> last stack \<noteq> ''..'' then butlast stack
         else if rooted then stack
         else stack @ [''..''])
      else stack @ [elt])"

definition Clean :: "string \<Rightarrow> string" where
  "Clean path =
     (let rooted = (path \<noteq> [] \<and> hd path = CHR ''/'');
          stack = foldl (cleanStep rooted) [] (splitSep path)
      in if rooted then CHR ''/'' # joinSep stack
         else if stack = [] then ''.''
         else joinSep stack)"

definition Join :: "string list \<Rightarrow> string" where
  "Join elem =
     (case dropWhile (\<lambda>e. e = []) elem of [] \<Rightarrow> [] | es \<Rightarrow> Clean (joinSep es))"





type_synonym disk = "string \<rightharpoonup> string"

definition fileNameOf :: "SearchHouseSpider \<Rightarrow> string \<Rightarrow> string" where
  "fileNameOf s url = Join [workingDirectory s, FormatUint (hash url) @ ''.json'']"

definition writeToDisk :: "env \<Rightarrow> SearchHouseSpider \<Rightarrow> WebPage \<Rightarrow> disk \<Rightarrow> error + disk" where
  "writeToDisk e s w d =
     (let fileName = fileNameOf s (Url w)
      in if createFails e fileName then Inl Fatal
         else if writeFails e fileName then Inl Fatal
         else Inr (d(fileName \<mapsto> Serialize e w)))"

definition fileExists :: "env \<Rightarrow> disk \<Rightarrow> string \<Rightarrow> error + bool" where
  "fileExists e d path = (if statFails e path then Inl Fatal else Inr (d path \<noteq> None))"

definition pageDownloaded :: "env \<Rightarrow> SearchHouseSpider \<Rightarrow> disk \<Rightarrow> string \<Rightarrow> error + bool" where
  "pageDownloaded e s d url =
     (let fileName = fileNameOf s url
      in case fileExists e d fileName of Inl err \<Rightarrow> Inl Fatal | Inr exists \<Rightarrow> Inr exists)"

section \<open>The frontier\<close>

text \<open>
  Modelled from the spec: the type \<^verbatim>\<open>Frontier\<close>, whose code is not part of the
  sources. It is a queue of URL entries, each owned by a shard; \<^verbatim>\<open>InsertPage\<close>
  appends an entry, \<^verbatim>\<open>PopURL\<close> removes and returns the next URL of a shard, and the
  empty string when the shard has none.
\<close>

type_synonym Frontier = "(string \<times> 64 word) list"

definition InsertPage :: "Frontier \<Rightarrow> string \<Rightarrow> 64 word \<Rightarrow> Frontier" where
  "InsertPage f url shard = f @ [(url, shard)]"

definition PopURL :: "Frontier \<Rightarrow> 64 word \<Rightarrow> string \<times> Frontier" where
  "PopURL f shard =
     (case find (\<lambda>entry. snd entry = shard) f of
        None \<Rightarrow> ([], f)
      | Some entry \<Rightarrow> (fst entry, remove1 entry f))"

section \<open>The worker\<close>

record world =
  frontier :: Frontier
  files :: disk

text \<open>What a worker does that the claims observe, in the order it does it.\<close>

datatype event =
    Slept nat            \<comment> \<open>\<^verbatim>\<open>time.Sleep\<close>, in seconds\<close>
  | Requested string     \<comment> \<open>\<^verbatim>\<open>http.Get\<close> of a URL\<close>
  | Admitted WebPage     \<comment> \<open>the page was registered in the index and written to disk\<close>

definition NewWebPage :: "env \<Rightarrow> int \<Rightarrow> string \<Rightarrow> string \<Rightarrow> string \<Rightarrow> WebPage" where
  "NewWebPage e t url status body =
     \<lparr>Time = t, Url = url, Status = status, Body = body,
      Fingerprints = GenerateFingerprints e body\<rparr>"

text \<open>The loop over the links of an admitted page.\<close>

fun insertLoop :: "env \<Rightarrow> SearchHouseSpider \<Rightarrow> string list \<Rightarrow> world \<Rightarrow> error + world" where
  "insertLoop e s [] w = Inr w"
| "insertLoop e s (key # keys) w =
     (case pageDownloaded e s (files w) key of
        Inl err \<Rightarrow> Inl err
      | Inr True \<Rightarrow> insertLoop e s keys w
      | Inr False \<Rightarrow>
          (case calcWebsiteToRoutineNum s key of
             Inl err \<Rightarrow> Inl err
           | Inr shard \<Rightarrow>
               insertLoop e s keys (w\<lparr>frontier := InsertPage (frontier w) key shard\<rparr>)))"

text \<open>
  One round of the loop of \<^verbatim>\<open>Crawl\<close>, for the worker \<open>routineNum\<close> whose index is
  \<open>fp\<close>. The result is what the worker did, its index and the shared state.
\<close>

definition crawlStep ::
  "env \<Rightarrow> SearchHouseSpider \<Rightarrow> 64 word \<Rightarrow> FingerprintIndex \<times> world
     \<Rightarrow> error + (event list \<times> FingerprintIndex \<times> world)" where
  "crawlStep e s routineNum st =
     (let fp = fst st;
          (currentUrl, rest) = PopURL (frontier (snd st)) routineNum;
          w = (snd st)\<lparr>frontier := rest\<rparr>
      in if currentUrl = [] then Inr ([Slept 1], fp, w)
         else if \<not> urlValid e currentUrl then Inr ([], fp, w)
         else
           (case pageDownloaded e s (files w) currentUrl of
              Inl err \<Rightarrow> Inl err
            | Inr True \<Rightarrow> Inr ([], fp, w)
            | Inr False \<Rightarrow>
                (case httpGet e currentUrl of
                   GetError \<Rightarrow> Inr ([Requested currentUrl, Slept 5], fp, w)
                 | Response status read \<Rightarrow>
                     if status \<noteq> ''200 OK'' then Inr ([Requested currentUrl, Slept 5], fp, w)
                     else
                       (case read of
                          None \<Rightarrow> Inr ([Requested currentUrl, Slept 5], fp, w)
                        | Some body \<Rightarrow>
                            (let page = NewWebPage e (unixNow e) currentUrl status body
                             in if \<not> validPage page \<or> duplicateExists fp page
                                then Inr ([Requested currentUrl], fp, w)
                                else
                                  (case writeToDisk e s page (files w) of
                                     Inl err \<Rightarrow> Inl err
                                   | Inr d \<Rightarrow>
                                       (case constructProperURLs e
                                               (FindAllAnchorHREFs e body (maxLinksPerPage s))
                                               currentUrl of
                                          Inl err \<Rightarrow> Inl err
                                        | Inr anchors \<Rightarrow>
                                            (case insertLoop e s anchors (w\<lparr>files := d\<rparr>) of
                                               Inl err \<Rightarrow> Inl err
                                             | Inr w' \<Rightarrow>
                                                 Inr ([Requested currentUrl, Admitted page, Slept 5],
                                                      InsertFingerprintsUsingWebpage fp page,
                                                      w')))))))))"

definition eventsOf ::
  "error + (event list \<times> FingerprintIndex \<times> world) \<Rightarrow> event list option" where
  "eventsOf r = (case r of Inl err \<Rightarrow> None | Inr x \<Rightarrow> Some (fst x))"

text \<open>
  \<^verbatim>\<open>Crawl\<close> creates the index of the worker and then loops for ever; \<open>n\<close> bounds
  the number of rounds observed.
\<close>

fun crawlLoop ::
  "env \<Rightarrow> SearchHouseSpider \<Rightarrow> 64 word \<Rightarrow> nat \<Rightarrow> FingerprintIndex \<times> world
     \<Rightarrow> error + (event list \<times> FingerprintIndex \<times> world)" where
  "crawlLoop e s routineNum 0 st = Inr ([], st)"
| "crawlLoop e s routineNum (Suc n) st =
     (case crawlStep e s routineNum st of
        Inl err \<Rightarrow> Inl err
      | Inr (evs, st') \<Rightarrow>
          (case crawlLoop e s routineNum n st' of
             Inl err \<Rightarrow> Inl err
           | Inr (evs', st'') \<Rightarrow> Inr (evs @ evs', st'')))"

definition Crawl ::
  "env \<Rightarrow> SearchHouseSpider \<Rightarrow> 64 word \<Rightarrow> nat \<Rightarrow> world
     \<Rightarrow> error + (event list \<times> FingerprintIndex \<times> world)" where
  "Crawl e s routineNum n w = (let fp = NewFingerprints in crawlLoop e s routineNum n (fp, w))"

text \<open>
  \<^verbatim>\<open>CrawlConcurrently\<close> starts one \<^verbatim>\<open>Crawl\<close> for each routine number. Each of them
  has the index it created in its variable \<open>fp\<close>; the frontier and the files are
  shared. A schedule lists which worker runs its next round.
\<close>

record system =
  indexOf :: "nat \<Rightarrow> FingerprintIndex"
  shared :: world
  trace :: "(nat \<times> event) list"

definition CrawlConcurrently :: "world \<Rightarrow> system" where
  "CrawlConcurrently w = \<lparr>indexOf = (\<lambda>i. NewFingerprints), shared = w, trace = []\<rparr>"

definition workerStep :: "env \<Rightarrow> SearchHouseSpider \<Rightarrow> nat \<Rightarrow> system \<Rightarrow> error + system" where
  "workerStep e s i sys =
     (case crawlStep e s (of_nat i) (indexOf sys i, shared sys) of
        Inl err \<Rightarrow> Inl err
      | Inr (evs, fp, w) \<Rightarrow>
          Inr \<lparr>indexOf = (indexOf sys)(i := fp), shared = w,
               trace = trace sys @ map (Pair i) evs\<rparr>)"

fun runSchedule :: "env \<Rightarrow> SearchHouseSpider \<Rightarrow> nat list \<Rightarrow> system \<Rightarrow> error + system" where
  "runSchedule e s [] sys = Inr sys"
| "runSchedule e s (i # sched) sys =
     (case workerStep e s i sys of
        Inl err \<Rightarrow> Inl err
      | Inr sys' \<Rightarrow> runSchedule e s sched sys')"


text \<open>
  In every worker's index, the pages under a fingerprint are the pages with that
  fingerprint that this worker admitted.
\<close>

definition ownPagesOnly :: "system \<Rightarrow> bool" where
  "ownPagesOnly sys \<longleftrightarrow>
     (\<forall>i h. pagesAt (indexOf sys i) h
         = {p. (i, Admitted p) \<in> set (trace sys) \<and> h \<in> set (Fingerprints p)})"

definition traceOf :: "error + system \<Rightarrow> (nat \<times> event) list" where
  "traceOf r = (case r of Inl err \<Rightarrow> [] | Inr sys \<Rightarrow> trace sys)"

text \<open>\<^verbatim>\<open>setSeed\<close>: the seed URLs that are not on disk yet enter shard 0.\<close>

fun setSeed :: "env \<Rightarrow> SearchHouseSpider \<Rightarrow> string list \<Rightarrow> world \<Rightarrow> error + world" where
  "setSeed e s [] w = Inr w"
| "setSeed e s (urlStr # urls) w =
     (case pageDownloaded e s (files w) urlStr of
        Inl err \<Rightarrow> Inl err
      | Inr True \<Rightarrow> setSeed e s urls w
      | Inr False \<Rightarrow> setSeed e s urls (w\<lparr>frontier := InsertPage (frontier w) urlStr 0\<rparr>))"

section \<open>Inputs for the examples\<close>

text \<open>
  The words of the alternatives of the extension pattern: the file extensions that
  \<^verbatim>\<open>urlValid\<close> disallows.
\<close>

definition disallowedExtensions :: "string list" where
  "disallowedExtensions =
     [''css'', ''js'', ''bmp'', ''gif'', ''jpg'', ''jpeg'', ''ico'', ''png'', ''tif'', ''tiff'',
      ''mid'', ''mp2'', ''mp3'', ''mp4'', ''ppsx'', ''wav'', ''avi'', ''mov'', ''mpeg'', ''ram'',
      ''m4v'', ''mkv'', ''ogg'', ''ogv'', ''pdf'', ''odc'', ''sas'', ''ps'', ''eps'', ''tex'',
      ''ppt'', ''pptx'', ''doc'', ''docx'', ''xls'', ''xlsx'', ''names'', ''data'', ''dat'',
      ''exe'', ''bz2'', ''tar'', ''msi'', ''bin'', ''7z'', ''psd'', ''dmg'', ''iso'', ''epub'',
      ''dll'', ''cnf'', ''tgz'', ''sha1'', ''ss'', ''scm'', ''py'', ''rkt'', ''r'', ''c'',
      ''thmx'', ''mso'', ''arff'', ''rtf'', ''jar'', ''csv'', ''java'', ''txt'', ''rm'', ''smil'',
      ''wmv'', ''swf'', ''wma'', ''zip'', ''rar'', ''gz'']"

text \<open>
  An environment in which every host is eligible and every request is answered with the
  same page, whose only link goes to a mirror of the site.
\<close>

definition mirrorBody :: string where
  "mirrorBody = ''<!DOCTYPE html><html><body>the same text on every host</body></html>''"

definition mirrorEnv :: env where
  "mirrorEnv =
     \<lparr>urlParseHost = (\<lambda>u. Some (drop 8 (findHostName u))),
      wordpressProbe = (\<lambda>host. True),
      httpGet = (\<lambda>u. Response ''200 OK'' (Some mirrorBody)),
      unixNow = 1700000000,
      statFails = (\<lambda>path. False),
      createFails = (\<lambda>path. False),
      writeFails = (\<lambda>path. False),
      GenerateFingerprints = (\<lambda>body. [11, 22, 33]),
      FindAllAnchorHREFs = (\<lambda>body n. [''https://mirror.example/post'']),
      Serialize = (\<lambda>w. Url w @ Body w)\<rparr>"

definition plainTextEnv :: env where
  "plainTextEnv = mirrorEnv\<lparr>httpGet := (\<lambda>u. Response ''200 OK'' (Some ''just text''))\<rparr>"

definition spider3 :: SearchHouseSpider where
  "spider3 = \<lparr>numRoutines = 3, workingDirectory = ''pages'', maxLinksPerPage = 20\<rparr>"


definition spider2 :: SearchHouseSpider where
  "spider2 = \<lparr>numRoutines = 2, workingDirectory = ''pages'', maxLinksPerPage = 20\<rparr>"

definition seedWorld :: world where
  "seedWorld = \<lparr>frontier = [(''https://alpha.example/post'', 0)], files = Map.empty\<rparr>"

definition pageAlpha :: WebPage where
  "pageAlpha = NewWebPage mirrorEnv 1700000000 ''https://alpha.example/post'' ''200 OK'' mirrorBody"

definition pageMirror :: WebPage where
  "pageMirror = NewWebPage mirrorEnv 1700000000 ''https://mirror.example/post'' ''200 OK'' mirrorBody"

definition pageCopy :: WebPage where
  "pageCopy = NewWebPage mirrorEnv 1700000000 ''https://alpha.example/copy'' ''200 OK'' mirrorBody"

definition copyWorld :: world where
  "copyWorld =
     \<lparr>frontier = [(''https://alpha.example/copy'', 0)],
      files = [''pages/9750906649529186445.json'' \<mapsto> Serialize mirrorEnv pageAlpha]\<rparr>"

section \<open>Properties of the matcher\<close>

lemma concat_map_concat:
  "concat (map f (concat xss)) = concat (map (\<lambda>xs. concat (map f xs)) xss)"
  by (induction xss) simp_all

lemma ms_Seq_fun: "ms (Seq a b) = (\<lambda>p. concat (map (ms b) (ms a p)))"
  by (rule ext) simp

lemma ms_Grp_fun: "ms (Grp n r) = ms r"
  by (rule ext) simp

lemma find_from_cong: "ms r = ms r' \<Longrightarrow> find_from r b s = find_from r' b s"
  by (induction s arbitrary: b) (simp_all split: list.splits)

section \<open>The legacy copy of the URL validation\<close>

text \<open>
  Capture groups, named or not, do not change what a pattern matches, and concatenation
  is associative: the two patterns have the same matches at every position.
\<close>

lemma ms_urlRe_legacy: "ms urlRe_legacy = ms urlRe"
  unfolding urlRe_legacy_def urlRe_def
  by (simp only: ms_Seq_fun ms_Grp_fun concat_map_concat map_map comp_def)

lemma MatchString_urlRe_legacy: "MatchString urlRe_legacy url = MatchString urlRe url"
  unfolding MatchString_def FindString_def
  by (simp only: find_from_cong [OF ms_urlRe_legacy])

text \<open>
  Claim C10. The legacy copy of \<^verbatim>\<open>urlValid\<close>, whose pattern has named capture groups,
  and the current \<^verbatim>\<open>urlValid\<close> accept the same URL strings, given the same answers of
  the host-eligibility check.
\<close>

theorem urlValid_legacy_eq: "urlValid_legacy e url = urlValid e url"
  by (simp add: urlValid_legacy_def urlValid_def MatchString_urlRe_legacy)

section \<open>The shard of a URL\<close>

subsection \<open>The range of the shard\<close>

lemma sint_min_iff: "sint (x :: 64 word) = - (2 ^ 63) \<longleftrightarrow> x = 2 ^ 63"
proof
  assume "sint x = - (2 ^ 63)"
  then have "word_of_int (sint x) = (word_of_int (- (2 ^ 63)) :: 64 word)" by simp
  then show "x = 2 ^ 63" by simp
next
  assume "x = 2 ^ 63"
  then show "sint x = - (2 ^ 63)" by simp
qed

lemma sint_neg:
  assumes "(x :: 64 word) \<noteq> 2 ^ 63"
  shows "sint (- x) = - sint x"
proof -
  have ne: "sint x \<noteq> - (2 ^ 63)" using assms sint_min_iff [of x] by blast
  have lo: "- (2 ^ 63) \<le> sint x" using sint_ge [of x] by simp
  have hi: "sint x < 2 ^ 63" using sint_lt [of x] by simp
  have "sint (- x) = signed_take_bit 63 (- sint x)" by (simp add: sint_word_ariths)
  also have "\<dots> = - sint x"
    by (rule signed_take_bit_int_eq_self) (use ne lo hi in linarith)+
  finally show ?thesis .
qed

lemma sint_abs_go: "x \<noteq> 2 ^ 63 \<Longrightarrow> sint (abs_go x) = \<bar>sint x\<bar>"
  by (simp add: abs_go_def word_sless_alt sint_neg)

text \<open>
  As long as the hash of the host name is not \<open>2 ^ 63\<close>, the shard of a URL is one of
  \<open>0, \<dots>, numRoutines - 1\<close>.
\<close>

lemma calc_in_range:
  assumes n: "0 <s numRoutines s" and h: "hash (findHostName url) \<noteq> 2 ^ 63"
  shows "\<exists>w. calcWebsiteToRoutineNum s url = Inr w \<and> 0 \<le> sint w \<and> sint w < sint (numRoutines s)"
proof -
  let ?a = "abs_go (hash (findHostName url))"
  let ?n = "numRoutines s"
  have pos: "0 < sint ?n" using n by (simp add: word_sless_alt)
  then have n0: "?n \<noteq> 0" by auto
  have a0: "0 \<le> sint ?a" using h by (simp add: sint_abs_go)
  let ?r = "sint ?a smod sint ?n"
  have r: "?r = sint ?a mod sint ?n" using a0 pos by (simp add: smod_int_alt_def sgn_if)
  have r0: "0 \<le> ?r" and rn: "?r < sint ?n" using pos by (simp_all add: r)
  have "sint ?n < 2 ^ 63" using sint_lt [of ?n] by simp
  then have "signed_take_bit 63 ?r = ?r"
    using r0 rn by (intro signed_take_bit_int_eq_self) linarith+
  then have "sint (word_of_int ?r :: 64 word) = ?r"
    by (simp add: sint_sbintrunc')
  then show ?thesis using r0 rn n0 by (simp add: calcWebsiteToRoutineNum_def rem_go_def)
qed

text \<open>
  The host name below passes \<^verbatim>\<open>urlRe\<close> and has no disallowed extension, so a link to
  it reaches \<^verbatim>\<open>calcWebsiteToRoutineNum\<close> once its host is eligible. Its hash is
  \<open>2 ^ 63\<close>, the least 64-bit integer when read as signed, which \<^verbatim>\<open>abs\<close> returns
  unchanged.
\<close>

lemma hash_min_int:
  "hash ''https://c0n1454syiye4x4f52ujlucy2k8q3bk30ajaaa8i.com'' = 2 ^ 63"
  by code_simp

lemma min_int_url_valid:
  "urlValid e ''https://c0n1454syiye4x4f52ujlucy2k8q3bk30ajaaa8i.com/blog''
     = wordpressProbe e (getHostname e ''https://c0n1454syiye4x4f52ujlucy2k8q3bk30ajaaa8i.com/blog'')"
proof -
  have "MatchString urlRe ''https://c0n1454syiye4x4f52ujlucy2k8q3bk30ajaaa8i.com/blog''"
    by code_simp
  moreover have "\<not> MatchString extRe (ToLower ''https://c0n1454syiye4x4f52ujlucy2k8q3bk30ajaaa8i.com/blog'')"
    by code_simp
  ultimately show ?thesis by (simp add: urlValid_def isWordPressWebsite_def)
qed

text \<open>
  Claim C8 says that for every URL and every \<open>numRoutines \<ge> 1\<close> the result of
  \<^verbatim>\<open>calcWebsiteToRoutineNum\<close> is one of \<open>0, \<dots>, numRoutines - 1\<close>. With three
  routines and this URL the result is \<open>-2\<close>.
\<close>

theorem calc_negative:
  "calcWebsiteToRoutineNum \<lparr>numRoutines = 3, workingDirectory = ''pages'', maxLinksPerPage = 20\<rparr>
     ''https://c0n1454syiye4x4f52ujlucy2k8q3bk30ajaaa8i.com/blog'' = Inr (- 2)"
  by code_simp

section \<open>Link discovery\<close>

lemma ext_matches:
  "list_all (\<lambda>e. ms extRe (True, ''.'' @ e) \<noteq> [] \<and> ms extRe (False, ''.'' @ e) \<noteq> []) disallowedExtensions"
  by code_simp

lemma find_from_suffix:
  "(\<And>b. ms r (b, w) \<noteq> []) \<Longrightarrow> suffix w s \<Longrightarrow> find_from r b s \<noteq> None"
proof (induction s arbitrary: b)
  case Nil
  then have "w = []" by simp
  with Nil(1) [of b] show ?case by (simp split: list.splits)
next
  case (Cons c t)
  show ?case
  proof (cases "w = c # t")
    case True
    with Cons.prems(1) [of b] show ?thesis by (simp split: list.splits)
  next
    case False
    with Cons.prems(2) have "suffix w t" by (simp add: suffix_Cons)
    then have "find_from r False t \<noteq> None" using Cons.IH Cons.prems(1) by blast
    then show ?thesis by (simp split: list.splits)
  qed
qed

lemma extRe_suffix:
  assumes "ext \<in> set disallowedExtensions" and "suffix (''.'' @ ext) s"
  shows "MatchString extRe s"
proof -
  have "ms extRe (b, ''.'' @ ext) \<noteq> []" for b
    using ext_matches assms(1) by (cases b) (auto simp: list_all_iff)
  then show ?thesis
    using assms(2) find_from_suffix [of extRe "''.'' @ ext" s True]
    by (simp add: MatchString_def FindString_def)
qed

lemma constructLoop_valid:
  "constructLoop e h urls acc = Inr S \<Longrightarrow> set S \<subseteq> set acc \<union> {x. urlValid e x}"
proof (induction urls arbitrary: acc)
  case Nil
  then show ?case by simp
next
  case (Cons u urls)
  show ?case
  proof (cases u)
    case Nil
    with Cons.prems show ?thesis by simp
  next
    case (Cons c cs)
    define p where "p = (if c = CHR ''/'' then h @ u else TrimSuffix u ''/'')"
    define acc' where "acc' = (if urlValid e p then Add acc p else acc)"
    have "constructLoop e h urls acc' = Inr S"
      using Cons.prems Cons by (auto simp: p_def acc'_def Let_def split: if_splits)
    then have "set S \<subseteq> set acc' \<union> {x. urlValid e x}" by (rule Cons.IH)
    moreover have "set acc' \<subseteq> set acc \<union> {x. urlValid e x}"
      by (auto simp: acc'_def Add_def)
    ultimately show ?thesis by blast
  qed
qed

lemma constructProperURLs_valid:
  "constructProperURLs e urls rootUrl = Inr S \<Longrightarrow> x \<in> set S \<Longrightarrow> urlValid e x"
  using constructLoop_valid [of e "findHostName rootUrl" urls "[]" S]
  by (auto simp: constructProperURLs_def Let_def split: if_splits)

text \<open>
  Claim C6. A URL that ends in a disallowed file extension, such as
  \<^verbatim>\<open>https://site.test/doc.pdf\<close>, fails \<^verbatim>\<open>urlValid\<close>, and it is not in the set that
  \<^verbatim>\<open>constructProperURLs\<close> returns, whatever the links and the root URL are.
\<close>

theorem disallowed_extension_never_inserted:
  assumes "ext \<in> set disallowedExtensions" and "suffix (''.'' @ ext) (ToLower u)"
  shows "\<not> urlValid e u \<and> (\<forall>S. constructProperURLs e urls rootUrl = Inr S \<longrightarrow> u \<notin> set S)"
proof -
  have "\<not> urlValid e u" using extRe_suffix [OF assms] by (simp add: urlValid_def)
  then show ?thesis using constructProperURLs_valid by blast
qed

theorem disallowed_extension_never_inserted_witness:
  "''pdf'' \<in> set disallowedExtensions
   \<and> suffix (''.'' @ ''pdf'') (ToLower ''https://site.test/doc.pdf'')
   \<and> \<not> urlValid mirrorEnv ''https://site.test/doc.pdf''
   \<and> constructProperURLs mirrorEnv
         [''/about'', ''/doc.pdf'', ''https://site.test/doc.pdf'', ''https://other.example/x/'']
         ''https://site.test/index''
       = Inr [''https://site.test/about'', ''https://other.example/x'']
   \<and> ''https://site.test/doc.pdf'' \<notin> set [''https://site.test/about'', ''https://other.example/x'']"
proof -
  have a: "''pdf'' \<in> set disallowedExtensions"
    by (simp add: disallowedExtensions_def)
  have b: "suffix (''.'' @ ''pdf'') (ToLower ''https://site.test/doc.pdf'')"
    by code_simp
  have c: "constructProperURLs mirrorEnv
         [''/about'', ''/doc.pdf'', ''https://site.test/doc.pdf'', ''https://other.example/x/'']
         ''https://site.test/index''
       = Inr [''https://site.test/about'', ''https://other.example/x'']"
    by code_simp
  show ?thesis
    using a b c disallowed_extension_never_inserted [OF a b, of mirrorEnv] by simp
qed

lemma constructLoop_Inl:
  "constructLoop e h urls acc = Inl err \<longleftrightarrow> err = IndexOutOfRange \<and> [] \<in> set urls"
proof (induction urls arbitrary: acc)
  case Nil
  then show ?case by simp
next
  case (Cons u urls)
  then show ?case by (cases u) (auto simp: Let_def)
qed

text \<open>
  Claim C9 says that \<^verbatim>\<open>constructProperURLs\<close> is total only if every string of the list
  is non-empty. When the root URL has no host name the function returns before it looks
  at the list:
\<close>

theorem constructProperURLs_total_on_empty_href:
  "constructProperURLs mirrorEnv [[]] ''mailto:someone@example.org'' = Inr []"
  by code_simp

text \<open>
  Claim C9, amended. \<^verbatim>\<open>constructProperURLs\<close> reads byte 0 of every link without
  checking that the link is non-empty, unless the root URL has no host name, and then it
  returns the empty set without reading the links. It panics, with an index out of range,
  exactly when the root URL has a host name and some link is empty; so it returns a set
  whenever every link is non-empty.
\<close>

theorem constructProperURLs_panic_iff:
  "(constructProperURLs e urls rootUrl = Inl IndexOutOfRange
      \<longleftrightarrow> findHostName rootUrl \<noteq> [] \<and> [] \<in> set urls)
   \<and> ((\<exists>S. constructProperURLs e urls rootUrl = Inr S)
      \<longleftrightarrow> findHostName rootUrl = [] \<or> [] \<notin> set urls)"
proof -
  have 1: "constructProperURLs e urls rootUrl = Inl err
      \<longleftrightarrow> err = IndexOutOfRange \<and> findHostName rootUrl \<noteq> [] \<and> [] \<in> set urls" for err
    by (auto simp: constructProperURLs_def Let_def constructLoop_Inl)
  have "(\<exists>S. constructProperURLs e urls rootUrl = Inr S) \<longleftrightarrow> (\<forall>err. constructProperURLs e urls rootUrl \<noteq> Inl err)"
    by (cases "constructProperURLs e urls rootUrl") auto
  then show ?thesis using 1 by auto
qed


lemma constructProperURLs_no_host:
  "findHostName rootUrl = [] \<Longrightarrow> constructProperURLs e urls rootUrl = Inr []"
  by (simp add: constructProperURLs_def)

theorem constructProperURLs_panic_iff_witness:
  "findHostName ''https://site.test/index'' \<noteq> []
   \<and> constructProperURLs mirrorEnv [''/about'', []] ''https://site.test/index'' = Inl IndexOutOfRange
   \<and> (\<exists>S. constructProperURLs mirrorEnv [''/about'', ''/x''] ''https://site.test/index'' = Inr S)"
proof -
  have h: "findHostName ''https://site.test/index'' \<noteq> []" by code_simp
  show ?thesis
    using h constructProperURLs_panic_iff [of mirrorEnv "[''/about'', []]" "''https://site.test/index''"]
      constructProperURLs_panic_iff [of mirrorEnv "[''/about'', ''/x'']" "''https://site.test/index''"]
    by simp
qed

section \<open>Page validation\<close>

lemma leadingSpace_Some:
  "leadingSpace s = Some w \<Longrightarrow> w \<in> set spaceRunes \<and> w \<noteq> [] \<and> prefix w s"
  by (auto simp: leadingSpace_def find_Some_iff)

lemma TrimLeftSpace_decomp:
  "\<exists>rs. set rs \<subseteq> set spaceRunes \<and> s = concat rs @ TrimLeftSpace s"
proof (induction s rule: TrimLeftSpace.induct)
  case (1 s)
  show ?case
  proof (cases "leadingSpace s")
    case None
    then have "TrimLeftSpace s = s" by (simp add: TrimLeftSpace.simps)
    then have "set [] \<subseteq> set spaceRunes \<and> s = concat [] @ TrimLeftSpace s" by simp
    then show ?thesis by blast
  next
    case (Some w)
    then obtain rs where rs: "set rs \<subseteq> set spaceRunes"
      "drop (length w) s = concat rs @ TrimLeftSpace (drop (length w) s)"
      using "1.IH" by blast
    have w: "w \<in> set spaceRunes" "prefix w s" using leadingSpace_Some [OF Some] by simp_all
    then have s: "s = w @ drop (length w) s" by (auto simp: prefix_def)
    have t: "TrimLeftSpace s = TrimLeftSpace (drop (length w) s)"
      using Some by (simp add: TrimLeftSpace.simps)
    have "set (w # rs) \<subseteq> set spaceRunes \<and> s = concat (w # rs) @ TrimLeftSpace s"
      using rs w(1) s t by simp
    then show ?thesis by blast
  qed
qed

lemma spaceRunes_prefix_free:
  "list_all (\<lambda>w. list_all (\<lambda>r. prefix w r \<longrightarrow> w = r) spaceRunes) spaceRunes"
  by code_simp

lemma spaceRunes_nonempty: "w \<in> set spaceRunes \<Longrightarrow> w \<noteq> []"
  by (auto simp: spaceRunes_def)

lemma leadingSpace_rune:
  assumes "r \<in> set spaceRunes"
  shows "leadingSpace (r @ t) = Some r"
proof -
  have "leadingSpace (r @ t) \<noteq> None"
    using assms spaceRunes_nonempty by (auto simp: leadingSpace_def find_None_iff)
  then obtain w where w: "leadingSpace (r @ t) = Some w" by blast
  then have m: "w \<in> set spaceRunes" and p: "prefix w (r @ t)"
    using leadingSpace_Some by blast+
  from p have "prefix w r \<or> prefix r w"
    using prefix_same_cases [of w "r @ t" r] by auto
  then have "w = r"
    using spaceRunes_prefix_free m assms by (auto simp: list_all_iff)
  with w show ?thesis by simp
qed

lemma TrimLeftSpace_runes:
  "set rs \<subseteq> set spaceRunes \<Longrightarrow> leadingSpace t = None \<Longrightarrow> TrimLeftSpace (concat rs @ t) = t"
proof (induction rs)
  case Nil
  then show ?case by (simp add: TrimLeftSpace.simps)
next
  case (Cons r rs)
  then have "leadingSpace (r @ concat rs @ t) = Some r" by (simp add: leadingSpace_rune)
  then have "TrimLeftSpace (concat (r # rs) @ t) = TrimLeftSpace (concat rs @ t)"
    by (subst TrimLeftSpace.simps) simp
  with Cons show ?case by simp
qed

lemma leadingSpace_doctype: "leadingSpace (CHR ''<'' # t) = None"
  by (simp add: leadingSpace_def find_None_iff spaceRunes_def)

text \<open>
  Claim C4, amended. \<^verbatim>\<open>validPage\<close> accepts a body if and only if the body, after its
  leading white space, begins with \<^verbatim>\<open><!DOCTYPE html\<close> or with \<^verbatim>\<open><!doctype html\<close>,
  written exactly so.
\<close>

theorem validPage_iff:
  "validPage wp \<longleftrightarrow>
     (\<exists>rs rest. set rs \<subseteq> set spaceRunes \<and>
        (Body wp = concat rs @ ''<!DOCTYPE html'' @ rest \<or>
         Body wp = concat rs @ ''<!doctype html'' @ rest))"
proof
  assume v: "validPage wp"
  obtain rs where rs: "set rs \<subseteq> set spaceRunes" "Body wp = concat rs @ TrimLeftSpace (Body wp)"
    using TrimLeftSpace_decomp by blast
  from v have "prefix ''<!DOCTYPE html'' (TrimLeftSpace (Body wp))
      \<or> prefix ''<!doctype html'' (TrimLeftSpace (Body wp))"
    by (simp add: validPage_def HasPrefix_def Let_def)
  then obtain rest where "TrimLeftSpace (Body wp) = ''<!DOCTYPE html'' @ rest
      \<or> TrimLeftSpace (Body wp) = ''<!doctype html'' @ rest"
    unfolding prefix_def by blast
  with rs show "\<exists>rs rest. set rs \<subseteq> set spaceRunes \<and>
        (Body wp = concat rs @ ''<!DOCTYPE html'' @ rest \<or>
         Body wp = concat rs @ ''<!doctype html'' @ rest)"
    by metis
next
  assume "\<exists>rs rest. set rs \<subseteq> set spaceRunes \<and>
        (Body wp = concat rs @ ''<!DOCTYPE html'' @ rest \<or>
         Body wp = concat rs @ ''<!doctype html'' @ rest)"
  then obtain rs rest where rs: "set rs \<subseteq> set spaceRunes"
    and b: "Body wp = concat rs @ ''<!DOCTYPE html'' @ rest \<or>
         Body wp = concat rs @ ''<!doctype html'' @ rest"
    by blast
  from b show "validPage wp"
  proof
    assume "Body wp = concat rs @ ''<!DOCTYPE html'' @ rest"
    then have "TrimLeftSpace (Body wp) = ''<!DOCTYPE html'' @ rest"
      using TrimLeftSpace_runes [OF rs, of "''<!DOCTYPE html'' @ rest"] leadingSpace_doctype by simp
    then show ?thesis by (simp add: validPage_def HasPrefix_def Let_def)
  next
    assume "Body wp = concat rs @ ''<!doctype html'' @ rest"
    then have "TrimLeftSpace (Body wp) = ''<!doctype html'' @ rest"
      using TrimLeftSpace_runes [OF rs, of "''<!doctype html'' @ rest"] leadingSpace_doctype by simp
    then show ?thesis by (simp add: validPage_def HasPrefix_def Let_def)
  qed
qed

theorem validPage_iff_witness:
  "set [[CHR 0x20], [CHR 0x0A], [CHR 0xC2, CHR 0xA0]] \<subseteq> set spaceRunes
   \<and> validPage \<lparr>Time = 1700000000, Url = ''https://site.test/index'', Status = ''200 OK'',
       Body = concat [[CHR 0x20], [CHR 0x0A], [CHR 0xC2, CHR 0xA0]] @ ''<!doctype html'' @ ''<html></html>'',
       Fingerprints = []\<rparr>"
proof -
  let ?rs = "[[CHR 0x20], [CHR 0x0A], [CHR 0xC2, CHR 0xA0]]"
  let ?wp = "\<lparr>Time = 1700000000, Url = ''https://site.test/index'', Status = ''200 OK'',
       Body = concat ?rs @ ''<!doctype html'' @ ''<html></html>'', Fingerprints = []\<rparr>"
  have s: "set ?rs \<subseteq> set spaceRunes"
    by (simp add: spaceRunes_def)
  have b: "Body ?wp = concat ?rs @ ''<!doctype html'' @ ''<html></html>''"
    by (simp only: WebPage.select_convs)
  have "\<exists>rs rest. set rs \<subseteq> set spaceRunes \<and>
        (Body ?wp = concat rs @ ''<!DOCTYPE html'' @ rest \<or>
         Body ?wp = concat rs @ ''<!doctype html'' @ rest)"
    using s b by blast
  then have "validPage ?wp"
    by (simp only: validPage_iff)
  with s show ?thesis by (rule conjI)
qed

text \<open>
  Claim C4 says that every casing of the prefix is accepted. Only two are:
\<close>

theorem validPage_mixed_case_rejected:
  "\<not> validPage \<lparr>Time = 1700000000, Url = ''https://site.test/index'', Status = ''200 OK'',
       Body = ''<!DocType HTML><html></html>'', Fingerprints = []\<rparr>"
  by code_simp


section \<open>The near-duplicate check\<close>

lemma pagesAt_upd:
  "pagesAt (fp(a \<mapsto> (case fp a of None \<Rightarrow> [page] | Some ps \<Rightarrow> ps @ [page]))) h
     = pagesAt fp h \<union> (if h = a then {page} else {})"
  by (auto simp: pagesAt_def split: option.splits)

lemma pagesAt_fold:
  "pagesAt (foldl (\<lambda>m h. m(h \<mapsto> (case m h of None \<Rightarrow> [page] | Some ps \<Rightarrow> ps @ [page]))) fp hs) h
     = pagesAt fp h \<union> (if h \<in> set hs then {page} else {})"
proof (induction hs arbitrary: fp)
  case Nil
  then show ?case by simp
next
  case (Cons a hs)
  have "pagesAt (foldl (\<lambda>m h. m(h \<mapsto> (case m h of None \<Rightarrow> [page] | Some ps \<Rightarrow> ps @ [page]))) fp (a # hs)) h
      = pagesAt (fp(a \<mapsto> (case fp a of None \<Rightarrow> [page] | Some ps \<Rightarrow> ps @ [page]))) h
          \<union> (if h \<in> set hs then {page} else {})"
    by (simp only: foldl_Cons Cons.IH)
  also have "\<dots> = pagesAt fp h \<union> (if h \<in> set (a # hs) then {page} else {})"
    by (simp only: pagesAt_upd) auto
  finally show ?case .
qed

lemma pagesAt_Insert:
  "pagesAt (InsertFingerprintsUsingWebpage fp page) h
     = pagesAt fp h \<union> (if h \<in> set (Fingerprints page) then {page} else {})"
  unfolding InsertFingerprintsUsingWebpage_def by (rule pagesAt_fold)

lemma pagesAt_foldl_Insert:
  "pagesAt (foldl InsertFingerprintsUsingWebpage fp pages) h
     = pagesAt fp h \<union> {p \<in> set pages. h \<in> set (Fingerprints p)}"
  by (induction pages arbitrary: fp) (auto simp: pagesAt_Insert)

lemma pagesAt_admitAll:
  "pagesAt (admitAll pages) h = {p \<in> set pages. h \<in> set (Fingerprints p)}"
  by (simp add: admitAll_def pagesAt_foldl_Insert) (simp add: pagesAt_def NewFingerprints_def)

lemma pagesLoop_iff:
  "pagesLoop wp pages \<longleftrightarrow> (\<exists>page \<in> set pages. Url page \<noteq> Url wp \<and> Similarity wp page > 9 / 10)"
  by (induction pages) auto

lemma hashLoop_iff:
  "hashLoop fp wp hs \<longleftrightarrow>
     (\<exists>h \<in> set hs. \<exists>page \<in> pagesAt fp h. Url page \<noteq> Url wp \<and> Similarity wp page > 9 / 10)"
  by (induction hs) (auto simp: pagesLoop_iff pagesAt_def split: option.splits)

lemma duplicateExists_iff:
  "duplicateExists fp wp \<longleftrightarrow>
     (\<exists>h \<in> set (Fingerprints wp). \<exists>page \<in> pagesAt fp h.
        Url page \<noteq> Url wp \<and> Similarity wp page > 9 / 10)"
  by (simp add: duplicateExists_def hashLoop_iff)

text \<open>
  Claim C2 says that a candidate is a duplicate as soon as a page of the index shares a
  fingerprint with it and their Jaccard similarity exceeds 0.9. A page of the index with
  the candidate's own URL does not count:
\<close>

theorem duplicateExists_same_url:
  "\<not> duplicateExists (admitAll [pageAlpha]) (pageAlpha\<lparr>Time := 1700000600\<rparr>)
   \<and> set (Fingerprints pageAlpha) \<inter> set (Fingerprints (pageAlpha\<lparr>Time := 1700000600\<rparr>)) \<noteq> {}
   \<and> Similarity (pageAlpha\<lparr>Time := 1700000600\<rparr>) pageAlpha > 9 / 10"
  by code_simp

text \<open>
  Claim C2, amended. The near-duplicate check declares a candidate a duplicate if and only
  if some page of the index whose URL differs from the candidate's shares a fingerprint
  with the candidate and the Jaccard similarity of the two fingerprint sets exceeds 0.9.
\<close>

theorem duplicateExists_admitted:
  "duplicateExists (admitAll pages) wp \<longleftrightarrow>
     (\<exists>page \<in> set pages. Url page \<noteq> Url wp
         \<and> set (Fingerprints page) \<inter> set (Fingerprints wp) \<noteq> {}
         \<and> Similarity wp page > 9 / 10)"
  by (auto simp: duplicateExists_iff pagesAt_admitAll)

theorem duplicateExists_admitted_witness:
  "pageAlpha \<in> set [pageAlpha] \<and> Url pageAlpha \<noteq> Url pageCopy
   \<and> duplicateExists (admitAll [pageAlpha]) pageCopy"
proof -
  have p: "Url pageAlpha \<noteq> Url pageCopy
      \<and> set (Fingerprints pageAlpha) \<inter> set (Fingerprints pageCopy) \<noteq> {}
      \<and> Similarity pageCopy pageAlpha > 9 / 10"
    by code_simp
  then show ?thesis
    using duplicateExists_admitted [of "[pageAlpha]" pageCopy] by simp
qed

section \<open>The workers and their indexes\<close>

lemma crawlStep_index:
  assumes "crawlStep e s r (fp, w) = Inr (evs, fp', w')"
  shows "(fp' = fp \<and> (\<forall>p. Admitted p \<notin> set evs))
       \<or> (\<exists>url page. evs = [Requested url, Admitted page, Slept 5]
             \<and> fp' = InsertFingerprintsUsingWebpage fp page
             \<and> validPage page \<and> \<not> duplicateExists fp page)"
  using assms unfolding crawlStep_def
  by (auto simp: Let_def split: prod.splits sum.splits bool.splits http_result.splits
        option.splits if_splits)



lemma ownPagesOnly_init: "ownPagesOnly (CrawlConcurrently w)"
  by (simp add: ownPagesOnly_def CrawlConcurrently_def pagesAt_def NewFingerprints_def)

lemma ownPagesOnly_step:
  assumes "ownPagesOnly sys" and "workerStep e s i sys = Inr sys'"
  shows "ownPagesOnly sys'"
proof -
  from assms(2) obtain evs fp w where
    c: "crawlStep e s (of_nat i) (indexOf sys i, shared sys) = Inr (evs, fp, w)"
    and sys': "sys' = \<lparr>indexOf = (indexOf sys)(i := fp), shared = w,
               trace = trace sys @ map (Pair i) evs\<rparr>"
    by (auto simp: workerStep_def split: sum.splits prod.splits)
  from crawlStep_index [OF c] show ?thesis
  proof
    assume "fp = indexOf sys i \<and> (\<forall>p. Admitted p \<notin> set evs)"
    then show ?thesis using assms(1) by (auto simp: ownPagesOnly_def sys')
  next
    assume "\<exists>url page. evs = [Requested url, Admitted page, Slept 5]
             \<and> fp = InsertFingerprintsUsingWebpage (indexOf sys i) page
             \<and> validPage page \<and> \<not> duplicateExists (indexOf sys i) page"
    then obtain url page where "evs = [Requested url, Admitted page, Slept 5]"
      "fp = InsertFingerprintsUsingWebpage (indexOf sys i) page" by blast
    then show ?thesis using assms(1) by (auto simp: ownPagesOnly_def sys' pagesAt_Insert)
  qed
qed

lemma ownPagesOnly_run: "ownPagesOnly sys \<Longrightarrow> runSchedule e s sched sys = Inr sys' \<Longrightarrow> ownPagesOnly sys'"
  by (induction sched arbitrary: sys) (auto split: sum.splits dest: ownPagesOnly_step)

text \<open>
  Claim C1 says that a worker compares a page with the pages admitted by any worker. Here
  worker 0 admits a page, and worker 1 then admits a copy of it from another host:
\<close>

theorem copy_admitted_by_other_worker:
  "traceOf (runSchedule mirrorEnv spider2 [0, 1] (CrawlConcurrently seedWorld))
     = [(0, Requested ''https://alpha.example/post''), (0, Admitted pageAlpha), (0, Slept 5),
        (1, Requested ''https://mirror.example/post''), (1, Admitted pageMirror), (1, Slept 5)]
   \<and> Url pageAlpha \<noteq> Url pageMirror
   \<and> Similarity pageMirror pageAlpha = 1"
  by code_simp

text \<open>
  Claim C1, amended. Every worker has an index of its own, created when the worker
  starts. The near-duplicate check of a worker compares a page with the pages that this
  same worker admitted before, and with no page admitted by another worker.
\<close>

theorem worker_checks_own_pages:
  assumes "runSchedule e s sched (CrawlConcurrently w) = Inr sys"
  shows "duplicateExists (indexOf sys i) wp \<longleftrightarrow>
     (\<exists>page. (i, Admitted page) \<in> set (trace sys) \<and> Url page \<noteq> Url wp
         \<and> set (Fingerprints page) \<inter> set (Fingerprints wp) \<noteq> {}
         \<and> Similarity wp page > 9 / 10)"
proof -
  have "ownPagesOnly sys" using ownPagesOnly_run [OF ownPagesOnly_init assms] .
  then show ?thesis by (auto simp: duplicateExists_iff ownPagesOnly_def)
qed

theorem worker_checks_own_pages_witness:
  "\<exists>sys. runSchedule mirrorEnv spider2 [0] (CrawlConcurrently seedWorld) = Inr sys
     \<and> (0, Admitted pageAlpha) \<in> set (trace sys)
     \<and> \<not> duplicateExists (indexOf sys 1) pageMirror
     \<and> duplicateExists (indexOf sys 0) pageMirror"
proof -
  have t: "traceOf (runSchedule mirrorEnv spider2 [0] (CrawlConcurrently seedWorld))
      = [(0, Requested ''https://alpha.example/post''), (0, Admitted pageAlpha), (0, Slept 5)]"
    by code_simp
  then obtain sys where
    eq: "runSchedule mirrorEnv spider2 [0] (CrawlConcurrently seedWorld) = Inr sys"
    and tr: "trace sys = [(0, Requested ''https://alpha.example/post''), (0, Admitted pageAlpha), (0, Slept 5)]"
    by (auto simp: traceOf_def split: sum.splits)
  have p: "Url pageAlpha \<noteq> Url pageMirror
      \<and> set (Fingerprints pageAlpha) \<inter> set (Fingerprints pageMirror) \<noteq> {}
      \<and> Similarity pageMirror pageAlpha > 9 / 10"
    by code_simp
  have "\<not> duplicateExists (indexOf sys 1) pageMirror"
    using worker_checks_own_pages [OF eq, of 1 pageMirror] by (simp add: tr)
  moreover have "duplicateExists (indexOf sys 0) pageMirror"
    using worker_checks_own_pages [OF eq, of 0 pageMirror] p by (simp add: tr)
  ultimately show ?thesis using eq tr by simp
qed

section \<open>The sleep after a request\<close>

text \<open>
  After a request the worker sleeps five seconds, except when the page it fetched is not
  valid HTML or is a near-duplicate.
\<close>

lemma crawlStep_sleep:
  assumes "crawlStep e s r (fp, w) = Inr (evs, fp', w')" and "Requested u \<in> set evs"
  shows "Slept 5 \<notin> set evs \<longleftrightarrow>
     (\<exists>body. httpGet e u = Response ''200 OK'' (Some body)
        \<and> (\<not> validPage (NewWebPage e (unixNow e) u ''200 OK'' body)
            \<or> duplicateExists fp (NewWebPage e (unixNow e) u ''200 OK'' body)))"
  using assms unfolding crawlStep_def
  by (auto simp: Let_def split: prod.splits sum.splits bool.splits http_result.splits
        option.splits if_splits)

text \<open>
  Claim C5 says that the worker sleeps five seconds after a page that fails the HTML
  validation and after a near-duplicate. In both cases the round ends without a sleep:
\<close>

theorem rejected_page_no_sleep:
  "eventsOf (crawlStep plainTextEnv spider2 0 (NewFingerprints, seedWorld))
     = Some [Requested ''https://alpha.example/post'']
   \<and> eventsOf (crawlStep mirrorEnv spider2 0 (admitAll [pageAlpha], copyWorld))
     = Some [Requested ''https://alpha.example/copy'']"
  by code_simp

theorem rejected_page_no_sleep_witness:
  "(\<exists>evs. eventsOf (crawlStep plainTextEnv spider2 0 (NewFingerprints, seedWorld)) = Some evs
       \<and> Slept 5 \<notin> set evs)
   \<and> (\<exists>evs. eventsOf (crawlStep mirrorEnv spider2 0 (admitAll [pageAlpha], copyWorld)) = Some evs
       \<and> Slept 5 \<notin> set evs)"
  using rejected_page_no_sleep by simp

section \<open>The file of an admitted page\<close>





















section \<open>Host names and shards\<close>


text \<open>
  The remaining lemmas unfold the matcher by hand, one equation at a time.
\<close>

declare ms.simps [simp del]


















end
